theory Spec2Isabelle
  imports Complex_Main
begin

section \<open>Python values, errors and the comparison operators\<close>

text \<open>
  The filter module of the close-approach database compares attributes of a close approach
  with reference values through \<^verbatim>\<open>operator.eq\<close>, \<^verbatim>\<open>operator.ge\<close> and
  \<^verbatim>\<open>operator.le\<close>. The values that reach these comparisons are \<^verbatim>\<open>None\<close>, booleans,
  integers, floats and calendar dates. An exception is a value of type \<open>error\<close>; a
  computation that may raise returns \<open>error + 'a\<close>, with \<open>Inl\<close> for the exception.
\<close>

datatype error = UnsupportedCriterionError | TypeError | ValueError | OtherError string

text \<open>
  A float is not-a-number, an infinity, or a finite value. Comparison of floats is exact,
  so a finite float is represented by the real number it denotes.
\<close>

datatype pyfloat = NaN | NegInf | Fin real | PosInf

text \<open>\<^verbatim>\<open>datetime.date\<close> and its subclass \<^verbatim>\<open>datetime.datetime\<close>.\<close>

record pydate =
  year :: nat
  month :: nat
  day :: nat

record pydatetime = pydate +
  hour :: nat
  minute :: nat
  second :: nat

datatype pyval = PNone | PBool bool | PInt int | PFloat pyfloat | PDate pydate

text \<open>IEEE 754 ordering and equality: every comparison with not-a-number is false.\<close>

fun float_le :: "pyfloat \<Rightarrow> pyfloat \<Rightarrow> bool" where
  "float_le NaN _ = False"
| "float_le _ NaN = False"
| "float_le NegInf _ = True"
| "float_le _ PosInf = True"
| "float_le (Fin x) (Fin y) = (x \<le> y)"
| "float_le _ _ = False"

fun float_eq :: "pyfloat \<Rightarrow> pyfloat \<Rightarrow> bool" where
  "float_eq NaN _ = False"
| "float_eq _ NaN = False"
| "float_eq x y = (x = y)"

text \<open>Dates are ordered by year, then month, then day.\<close>

definition date_le :: "pydate \<Rightarrow> pydate \<Rightarrow> bool" where
  "date_le d e =
     (year d < year e \<or>
      (year d = year e \<and> (month d < month e \<or> (month d = month e \<and> day d \<le> day e))))"

text \<open>
  Booleans, integers and floats compare with each other by numeric value
  (\<^verbatim>\<open>True\<close> is \<open>1\<close>, \<^verbatim>\<open>False\<close> is \<open>0\<close>); \<open>as_number\<close> gives that value.
\<close>

fun as_number :: "pyval \<Rightarrow> pyfloat option" where
  "as_number (PBool b) = Some (Fin (if b then 1 else 0))"
| "as_number (PInt i) = Some (Fin (of_int i))"
| "as_number (PFloat x) = Some x"
| "as_number _ = None"

datatype comparator = OpEq | OpGe | OpLe

text \<open>
  \<^verbatim>\<open>a == b\<close> never raises on these values: values of unrelated types are unequal.
  \<^verbatim>\<open>a <= b\<close> and \<^verbatim>\<open>a >= b\<close> raise \<^verbatim>\<open>TypeError\<close> unless both operands are numbers
  or both are dates.
\<close>

definition py_eq :: "pyval \<Rightarrow> pyval \<Rightarrow> error + bool" where
  "py_eq a b =
     (case (as_number a, as_number b) of
        (Some x, Some y) \<Rightarrow> Inr (float_eq x y)
      | _ \<Rightarrow> Inr (a = b))"

definition py_le :: "pyval \<Rightarrow> pyval \<Rightarrow> error + bool" where
  "py_le a b =
     (case (as_number a, as_number b) of
        (Some x, Some y) \<Rightarrow> Inr (float_le x y)
      | _ \<Rightarrow> (case (a, b) of
                (PDate d, PDate e) \<Rightarrow> Inr (date_le d e)
              | _ \<Rightarrow> Inl TypeError))"

definition py_ge :: "pyval \<Rightarrow> pyval \<Rightarrow> error + bool" where
  "py_ge a b =
     (case (as_number a, as_number b) of
        (Some x, Some y) \<Rightarrow> Inr (float_le y x)
      | _ \<Rightarrow> (case (a, b) of
                (PDate d, PDate e) \<Rightarrow> Inr (date_le e d)
              | _ \<Rightarrow> Inl TypeError))"

fun apply_op :: "comparator \<Rightarrow> pyval \<Rightarrow> pyval \<Rightarrow> error + bool" where
  "apply_op OpEq a b = py_eq a b"
| "apply_op OpGe a b = py_ge a b"
| "apply_op OpLe a b = py_le a b"

section \<open>Close approaches and near-Earth objects\<close>

text \<open>
  Modelled from the spec: the classes \<^verbatim>\<open>NearEarthObject\<close> and \<^verbatim>\<open>CloseApproach\<close>
  (module \<^verbatim>\<open>models\<close>, imported by \<^verbatim>\<open>extract.py\<close>) are not among the sources. A close
  approach has a timestamp, a nominal distance, a relative velocity and a link to its
  object; the object has a diameter, which may be unknown, and a boolean hazardous flag.
  The loader reads the object table with \<^verbatim>\<open>pandas.read_csv\<close>, where a missing diameter
  is the float not-a-number: an unknown diameter is \<open>NaN\<close>.
\<close>

record near_earth_object =
  diameter :: pyfloat
  hazardous :: bool

record close_approach =
  time :: pydatetime
  distance :: pyfloat
  velocity :: pyfloat
  neo :: near_earth_object

text \<open>\<^verbatim>\<open>datetime.date()\<close>: the calendar date of a timestamp, without the time of day.\<close>

definition date_of :: "pydatetime \<Rightarrow> pydate" where
  "date_of t = \<lparr>year = year t, month = month t, day = day t\<rparr>"

text \<open>The two candidates of the end-to-end scenario of the specification.\<close>

abbreviation scenario_c1 :: close_approach where
  "scenario_c1 \<equiv>
     \<lparr>time = \<lparr>year = 2020, month = 1, day = 1, hour = 0, minute = 0, second = 0\<rparr>,
      distance = Fin (1 / 20), velocity = Fin 10,
      neo = \<lparr>diameter = Fin (3 / 10), hazardous = True\<rparr>\<rparr>"

abbreviation scenario_c2 :: close_approach where
  "scenario_c2 \<equiv>
     \<lparr>time = \<lparr>year = 2020, month = 1, day = 2, hour = 0, minute = 0, second = 0\<rparr>,
      distance = Fin (1 / 2), velocity = Fin 20,
      neo = \<lparr>diameter = NaN, hazardous = False\<rparr>\<rparr>"

section \<open>Attribute filters\<close>

text \<open>
  An \<^verbatim>\<open>AttributeFilter\<close> object holds a comparator and a reference value; its class
  decides which \<^verbatim>\<open>get\<close> runs. The base class raises \<^verbatim>\<open>UnsupportedCriterionError\<close>,
  the five subclasses fetch one attribute each.
\<close>

datatype filter_class =
  AttributeFilter | DateFilter | DistanceFilter | VelocityFilter | DiameterFilter | HazardousFilter

record attribute_filter =
  cls :: filter_class
  op :: comparator
  ref_value :: pyval

definition init :: "filter_class \<Rightarrow> comparator \<Rightarrow> pyval \<Rightarrow> attribute_filter" where
  "init c f v = \<lparr>cls = c, op = f, ref_value = v\<rparr>"

fun get :: "filter_class \<Rightarrow> close_approach \<Rightarrow> error + pyval" where
  "get AttributeFilter approach = Inl UnsupportedCriterionError"
| "get DateFilter approach = Inr (PDate (date_of (time approach)))"
| "get DistanceFilter approach = Inr (PFloat (distance approach))"
| "get VelocityFilter approach = Inr (PFloat (velocity approach))"
| "get DiameterFilter approach = Inr (PFloat (diameter (neo approach)))"
| "get HazardousFilter approach = Inr (PBool (hazardous (neo approach)))"

text \<open>
  \<^verbatim>\<open>__call__\<close>: a filter without reference value is true; otherwise the attribute is
  fetched, an exception of \<^verbatim>\<open>get\<close> propagates, and the comparator is applied to the
  attribute and the reference value. \<open>call_traced\<close> returns, next to the result, the
  invocations of \<^verbatim>\<open>get\<close> the call makes, each as the class whose \<^verbatim>\<open>get\<close> runs;
  \<open>call\<close> is the result alone.
\<close>

definition call_traced ::
  "attribute_filter \<Rightarrow> close_approach \<Rightarrow> filter_class list \<times> (error + bool)" where
  "call_traced self approach =
     (if ref_value self = PNone then ([], Inr True)
      else ([cls self],
            (case get (cls self) approach of
               Inl e \<Rightarrow> Inl e
             | Inr attr \<Rightarrow> apply_op (op self) attr (ref_value self))))"

definition call :: "attribute_filter \<Rightarrow> close_approach \<Rightarrow> error + bool" where
  "call self approach = snd (call_traced self approach)"

text \<open>
  \<^verbatim>\<open>create_filters\<close> appends ten filters to an empty list, one per keyword argument;
  an argument the caller leaves out is \<^verbatim>\<open>None\<close>.
\<close>

definition create_filters ::
  "pyval \<Rightarrow> pyval \<Rightarrow> pyval \<Rightarrow> pyval \<Rightarrow> pyval \<Rightarrow> pyval \<Rightarrow> pyval \<Rightarrow> pyval \<Rightarrow> pyval \<Rightarrow> pyval
     \<Rightarrow> attribute_filter list" where
  "create_filters date start_date end_date distance_min distance_max
       velocity_min velocity_max diameter_min diameter_max hazardous' =
     (let filters = [];
          filters = filters @ [init DateFilter OpEq date];
          filters = filters @ [init DateFilter OpGe start_date];
          filters = filters @ [init DateFilter OpLe end_date];
          filters = filters @ [init DistanceFilter OpGe distance_min];
          filters = filters @ [init DistanceFilter OpLe distance_max];
          filters = filters @ [init VelocityFilter OpGe velocity_min];
          filters = filters @ [init VelocityFilter OpLe velocity_max];
          filters = filters @ [init DiameterFilter OpGe diameter_min];
          filters = filters @ [init DiameterFilter OpLe diameter_max];
          filters = filters @ [init HazardousFilter OpEq hazardous']
      in filters)"

section \<open>Lazy sequences and the limiter\<close>

text \<open>
  An iterator is a lazy sequence: drawing from it yields an item and the rest, ends the
  sequence, or raises. It may be infinite, so it is a codatatype.
\<close>

codatatype 'a iterator = StopIteration | Raise error | Yield 'a "'a iterator"

text \<open>The iterator that yields the items of a list and then continues as \<open>rest\<close>.\<close>

fun yields :: "'a list \<Rightarrow> 'a iterator \<Rightarrow> 'a iterator" where
  "yields [] rest = rest"
| "yields (x # xs) rest = Yield x (yields xs rest)"

text \<open>\<^verbatim>\<open>sys.maxsize\<close> of CPython on a 64-bit platform.\<close>

definition sys_maxsize :: int where
  "sys_maxsize = 2 ^ 63 - 1"

text \<open>
  \<^verbatim>\<open>itertools.islice(iterable, 0, stop)\<close>. The constructor validates \<open>stop\<close> when it is
  called: it must be \<^verbatim>\<open>None\<close> or an integer between \<open>0\<close> and \<^verbatim>\<open>sys.maxsize\<close>, otherwise
  \<^verbatim>\<open>ValueError\<close> is raised. The resulting iterator counts the items it has passed on in
  \<open>i\<close>; once \<open>i\<close> has reached \<open>stop\<close> it ends without drawing from the source, otherwise it
  draws one item and passes on what it gets.
\<close>

primcorec islice_next :: "nat \<Rightarrow> nat option \<Rightarrow> 'a iterator \<Rightarrow> 'a iterator" where
  "islice_next i stop it =
     (if (case stop of None \<Rightarrow> False | Some s \<Rightarrow> s \<le> i) then StopIteration
      else (case it of
              StopIteration \<Rightarrow> StopIteration
            | Raise e \<Rightarrow> Raise e
            | Yield x it' \<Rightarrow> Yield x (islice_next (Suc i) stop it')))"

definition islice :: "'a iterator \<Rightarrow> int option \<Rightarrow> error + 'a iterator" where
  "islice iterable stop =
     (case stop of
        None \<Rightarrow> Inr (islice_next 0 None iterable)
      | Some s \<Rightarrow>
          if s < 0 \<or> sys_maxsize < s then Inl ValueError
          else Inr (islice_next 0 (Some (nat s)) iterable))"

definition limit :: "'a iterator \<Rightarrow> int option \<Rightarrow> error + 'a iterator" where
  "limit iterator n = (let n = (if n = Some 0 then None else n) in islice iterator n)"

section \<open>Facts about the operators and the constructions\<close>

lemma float_le_NaN: "\<not> float_le x NaN" "\<not> float_le NaN x"
  by (cases x; simp)+

lemma float_le_refl: "x \<noteq> NaN \<Longrightarrow> float_le x x"
  by (cases x) simp_all

lemma float_eq_refl: "x \<noteq> NaN \<Longrightarrow> float_eq x x"
  by (cases x) simp_all

lemma date_le_refl: "date_le d d"
  by (simp add: date_le_def)

lemma date_le_trans: "date_le a b \<Longrightarrow> date_le b c \<Longrightarrow> date_le a c"
  by (auto simp: date_le_def)

lemma call_eq:
  "call self approach =
     (if ref_value self = PNone then Inr True
      else (case get (cls self) approach of
              Inl e \<Rightarrow> Inl e
            | Inr attr \<Rightarrow> apply_op (op self) attr (ref_value self)))"
  by (simp add: call_def call_traced_def)

lemma create_filters_list:
  "create_filters d s e dmin dmax vmin vmax lo hi h =
     [\<lparr>cls = DateFilter, op = OpEq, ref_value = d\<rparr>,
      \<lparr>cls = DateFilter, op = OpGe, ref_value = s\<rparr>,
      \<lparr>cls = DateFilter, op = OpLe, ref_value = e\<rparr>,
      \<lparr>cls = DistanceFilter, op = OpGe, ref_value = dmin\<rparr>,
      \<lparr>cls = DistanceFilter, op = OpLe, ref_value = dmax\<rparr>,
      \<lparr>cls = VelocityFilter, op = OpGe, ref_value = vmin\<rparr>,
      \<lparr>cls = VelocityFilter, op = OpLe, ref_value = vmax\<rparr>,
      \<lparr>cls = DiameterFilter, op = OpGe, ref_value = lo\<rparr>,
      \<lparr>cls = DiameterFilter, op = OpLe, ref_value = hi\<rparr>,
      \<lparr>cls = HazardousFilter, op = OpEq, ref_value = h\<rparr>]"
  by (simp add: create_filters_def init_def)

lemma islice_next_None: "islice_next i None it = it"
  by (coinduction arbitrary: i it) (auto split: iterator.splits)

lemma islice_next_Stop [simp]: "islice_next i stop StopIteration = StopIteration"
  by (subst islice_next.code) simp

lemma islice_next_done [simp]: "s \<le> i \<Longrightarrow> islice_next i (Some s) it = StopIteration"
  by (subst islice_next.code) simp

lemma islice_next_Yield [simp]:
  "i < s \<Longrightarrow> islice_next i (Some s) (Yield x it) = Yield x (islice_next (Suc i) (Some s) it)"
  by (subst islice_next.code) simp

lemma islice_next_Raise [simp]: "i < s \<Longrightarrow> islice_next i (Some s) (Raise e) = Raise e"
  by (subst islice_next.code) simp

text \<open>
  Capped at \<open>k\<close> further items, a source that starts with the items \<open>xs\<close> gives the first
  \<open>k\<close> of them and ends there if it has that many; only otherwise is the rest of the
  source drawn from.
\<close>

lemma islice_next_yields:
  "islice_next i (Some (i + k)) (yields xs rest) =
     (if k \<le> length xs then yields (take k xs) StopIteration
      else yields xs (islice_next (i + length xs) (Some (i + k)) rest))"
proof (induction xs arbitrary: i k)
  case Nil
  then show ?case by simp
next
  case (Cons x xs)
  show ?case
  proof (cases k)
    case 0
    then show ?thesis by simp
  next
    case (Suc j)
    have "islice_next (Suc i) (Some (Suc i + j)) (yields xs rest) =
       (if j \<le> length xs then yields (take j xs) StopIteration
        else yields xs (islice_next (Suc i + length xs) (Some (Suc i + j)) rest))"
      by (rule Cons.IH)
    with Suc show ?thesis by simp
  qed
qed

lemma limit_positive:
  assumes "0 < k" and "k \<le> sys_maxsize"
  shows "limit it (Some k) = Inr (islice_next 0 (Some (nat k)) it)"
  using assms by (simp add: limit_def islice_def)

section \<open>The filters\<close>

text \<open>
  C1. A filter whose reference value is absent (\<^verbatim>\<open>None\<close>) returns \<^verbatim>\<open>True\<close> on every close
  approach, whatever its class and comparator, and the call makes no invocation of
  \<^verbatim>\<open>get\<close>. This holds for the base class too, whose \<^verbatim>\<open>get\<close> raises whenever it runs.
\<close>

theorem vacuous_filter_law:
  "ref_value self = PNone \<Longrightarrow>
     call self approach = Inr True \<and> call_traced self approach = ([], Inr True)"
  by (simp add: call_def call_traced_def)

theorem vacuous_filter_law_witness:
  "ref_value (init AttributeFilter OpGe PNone) = PNone \<and>
   get AttributeFilter scenario_c2 = Inl UnsupportedCriterionError \<and>
   call (init AttributeFilter OpGe PNone) scenario_c2 = Inr True \<and>
   call_traced (init AttributeFilter OpGe PNone) scenario_c2 = ([], Inr True)"
  using vacuous_filter_law [of "init AttributeFilter OpGe PNone" scenario_c2]
  by (simp add: init_def)

text \<open>
  C2. For every combination of the ten criteria, each possibly \<^verbatim>\<open>None\<close>,
  \<^verbatim>\<open>create_filters\<close> returns exactly ten filters in the order exact date (\<open>=\<close>), start
  date (\<open>\<ge>\<close>), end date (\<open>\<le>\<close>), minimum and maximum distance, minimum and maximum velocity,
  minimum and maximum diameter, hazardous (\<open>=\<close>). A filter built from an absent
  criterion is in the list, at its place, and is true on every close approach. The
  result is a function of the ten arguments alone.
\<close>

theorem create_filters_sequence:
  "create_filters d s e dmin dmax vmin vmax lo hi h =
     [\<lparr>cls = DateFilter, op = OpEq, ref_value = d\<rparr>,
      \<lparr>cls = DateFilter, op = OpGe, ref_value = s\<rparr>,
      \<lparr>cls = DateFilter, op = OpLe, ref_value = e\<rparr>,
      \<lparr>cls = DistanceFilter, op = OpGe, ref_value = dmin\<rparr>,
      \<lparr>cls = DistanceFilter, op = OpLe, ref_value = dmax\<rparr>,
      \<lparr>cls = VelocityFilter, op = OpGe, ref_value = vmin\<rparr>,
      \<lparr>cls = VelocityFilter, op = OpLe, ref_value = vmax\<rparr>,
      \<lparr>cls = DiameterFilter, op = OpGe, ref_value = lo\<rparr>,
      \<lparr>cls = DiameterFilter, op = OpLe, ref_value = hi\<rparr>,
      \<lparr>cls = HazardousFilter, op = OpEq, ref_value = h\<rparr>] \<and>
   length (create_filters d s e dmin dmax vmin vmax lo hi h) = 10 \<and>
   map cls (create_filters d s e dmin dmax vmin vmax lo hi h) =
     [DateFilter, DateFilter, DateFilter, DistanceFilter, DistanceFilter,
      VelocityFilter, VelocityFilter, DiameterFilter, DiameterFilter, HazardousFilter] \<and>
   map op (create_filters d s e dmin dmax vmin vmax lo hi h) =
     [OpEq, OpGe, OpLe, OpGe, OpLe, OpGe, OpLe, OpGe, OpLe, OpEq] \<and>
   map ref_value (create_filters d s e dmin dmax vmin vmax lo hi h) =
     [d, s, e, dmin, dmax, vmin, vmax, lo, hi, h] \<and>
   list_all (\<lambda>f. ref_value f = PNone \<longrightarrow> call f a = Inr True)
     (create_filters d s e dmin dmax vmin vmax lo hi h)"
  by (simp add: create_filters_list call_eq)

theorem create_filters_sequence_witness:
  "length (create_filters PNone PNone (PDate \<lparr>year = 2020, month = 1, day = 1\<rparr>)
       PNone PNone PNone PNone PNone PNone (PBool True)) = 10 \<and>
   map cls (create_filters PNone PNone (PDate \<lparr>year = 2020, month = 1, day = 1\<rparr>)
       PNone PNone PNone PNone PNone PNone (PBool True)) =
     [DateFilter, DateFilter, DateFilter, DistanceFilter, DistanceFilter,
      VelocityFilter, VelocityFilter, DiameterFilter, DiameterFilter, HazardousFilter] \<and>
   map op (create_filters PNone PNone (PDate \<lparr>year = 2020, month = 1, day = 1\<rparr>)
       PNone PNone PNone PNone PNone PNone (PBool True)) =
     [OpEq, OpGe, OpLe, OpGe, OpLe, OpGe, OpLe, OpGe, OpLe, OpEq] \<and>
   map ref_value (create_filters PNone PNone (PDate \<lparr>year = 2020, month = 1, day = 1\<rparr>)
       PNone PNone PNone PNone PNone PNone (PBool True)) =
     [PNone, PNone, PDate \<lparr>year = 2020, month = 1, day = 1\<rparr>,
      PNone, PNone, PNone, PNone, PNone, PNone, PBool True] \<and>
   list_all (\<lambda>f. ref_value f = PNone \<longrightarrow> call f scenario_c2 = Inr True)
     (create_filters PNone PNone (PDate \<lparr>year = 2020, month = 1, day = 1\<rparr>)
       PNone PNone PNone PNone PNone PNone (PBool True))"
  using create_filters_sequence [of PNone PNone "PDate \<lparr>year = 2020, month = 1, day = 1\<rparr>"
      PNone PNone PNone PNone PNone PNone "PBool True" scenario_c2]
  by blast

text \<open>
  C3. On a close approach whose object has an unknown diameter, the minimum-diameter
  (\<open>\<ge>\<close>) filter and the maximum-diameter (\<open>\<le>\<close>) filter both return \<^verbatim>\<open>False\<close> for every
  numeric bound, a permissive one such as a minimum of \<open>0\<close> included; neither raises.
\<close>

theorem unknown_diameter_policy:
  assumes "diameter (neo a) = NaN" and "as_number lo = Some x" and "as_number hi = Some y"
  shows "call (init DiameterFilter OpGe lo) a = Inr False \<and>
         call (init DiameterFilter OpLe hi) a = Inr False \<and>
         call (create_filters d s e dmin dmax vmin vmax lo hi h ! 7) a = Inr False \<and>
         call (create_filters d s e dmin dmax vmin vmax lo hi h ! 8) a = Inr False"
proof -
  from assms(2) have lo: "lo \<noteq> PNone" by auto
  from assms(3) have hi: "hi \<noteq> PNone" by auto
  have ge: "call (init DiameterFilter OpGe lo) a = Inr False"
    using assms(1,2) lo by (simp add: call_eq init_def py_ge_def float_le_NaN)
  have le: "call (init DiameterFilter OpLe hi) a = Inr False"
    using assms(1,3) hi by (simp add: call_eq init_def py_le_def float_le_NaN)
  from ge le show ?thesis
    by (simp add: create_filters_list init_def)
qed

theorem unknown_diameter_policy_witness:
  "diameter (neo scenario_c2) = NaN \<and>
   as_number (PFloat (Fin 0)) = Some (Fin 0) \<and> as_number (PInt 1000) = Some (Fin 1000) \<and>
   call (init DiameterFilter OpGe (PFloat (Fin 0))) scenario_c2 = Inr False \<and>
   call (init DiameterFilter OpLe (PInt 1000)) scenario_c2 = Inr False"
proof -
  have h1: "diameter (neo scenario_c2) = NaN" by simp
  have h2: "as_number (PFloat (Fin 0)) = Some (Fin 0)" by simp
  have h3: "as_number (PInt 1000) = Some (Fin 1000)" by simp
  from unknown_diameter_policy [OF h1 h2 h3] h1 h2 h3 show ?thesis by blast
qed

text \<open>
  C6. Calling a filter of the base class \<^verbatim>\<open>AttributeFilter\<close> with a reference value
  other than \<^verbatim>\<open>None\<close> runs the base \<^verbatim>\<open>get\<close>, which raises \<^verbatim>\<open>UnsupportedCriterionError\<close>;
  the call returns no default and hands the exception on to its caller.
\<close>

theorem unsupported_criterion:
  "v \<noteq> PNone \<Longrightarrow>
     get AttributeFilter a = Inl UnsupportedCriterionError \<and>
     call (init AttributeFilter f v) a = Inl UnsupportedCriterionError \<and>
     call_traced (init AttributeFilter f v) a =
       ([AttributeFilter], Inl UnsupportedCriterionError)"
  by (simp add: call_def call_traced_def init_def)

theorem unsupported_criterion_witness:
  "PFloat (Fin 1) \<noteq> PNone \<and>
   call (init AttributeFilter OpLe (PFloat (Fin 1))) scenario_c1 =
     Inl UnsupportedCriterionError"
  using unsupported_criterion [of "PFloat (Fin 1)" scenario_c1 OpLe]
  by simp

text \<open>
  C7. The hazardous criterion has three states. Built with \<^verbatim>\<open>hazardous=None\<close>, the tenth
  filter is true on every close approach, and the whole filter list gives the same
  verdict on two close approaches that differ in the hazardous flag only. Built with
  \<^verbatim>\<open>hazardous=False\<close> or \<^verbatim>\<open>hazardous=True\<close>, the tenth filter is true exactly on the
  close approaches whose object has that flag; with no other criterion given, these are
  exactly the close approaches every filter of the list accepts.
\<close>

theorem hazardous_tri_state:
  "call (create_filters d s e dmin dmax vmin vmax lo hi PNone ! 9) a = Inr True \<and>
   call (create_filters d s e dmin dmax vmin vmax lo hi (PBool b) ! 9) a =
     Inr (hazardous (neo a) = b) \<and>
   list_all (\<lambda>f. call f a = Inr True)
     (create_filters PNone PNone PNone PNone PNone PNone PNone PNone PNone PNone) \<and>
   list_all (\<lambda>f. call f a = Inr True)
     (create_filters PNone PNone PNone PNone PNone PNone PNone PNone PNone (PBool b)) =
     (hazardous (neo a) = b) \<and>
   list_all (\<lambda>f. call f (a\<lparr>neo := (neo a)\<lparr>hazardous := x\<rparr>\<rparr>) = Inr True)
     (create_filters d s e dmin dmax vmin vmax lo hi PNone) =
   list_all (\<lambda>f. call f a = Inr True)
     (create_filters d s e dmin dmax vmin vmax lo hi PNone)"
  by (simp add: create_filters_list call_eq py_eq_def)

theorem hazardous_tri_state_witness:
  "call (create_filters PNone PNone PNone PNone PNone PNone PNone PNone PNone PNone ! 9)
     scenario_c1 = Inr True \<and>
   call (create_filters PNone PNone PNone PNone PNone PNone PNone PNone PNone (PBool False) ! 9)
     scenario_c1 = Inr False \<and>
   call (create_filters PNone PNone PNone PNone PNone PNone PNone PNone PNone PNone ! 9)
     scenario_c2 = Inr True \<and>
   call (create_filters PNone PNone PNone PNone PNone PNone PNone PNone PNone (PBool False) ! 9)
     scenario_c2 = Inr True"
  using hazardous_tri_state [of PNone PNone PNone PNone PNone PNone PNone PNone PNone
      scenario_c1 False True]
    hazardous_tri_state [of PNone PNone PNone PNone PNone PNone PNone PNone PNone
      scenario_c2 False True]
  by simp

text \<open>
  C8, as the claim states it, fails: the object of the second scenario candidate has an
  unknown diameter, and the diameter filters built with the candidate's own diameter as
  reference value return \<^verbatim>\<open>False\<close> for all three comparison kinds.
\<close>

theorem reflexivity_counterexample:
  "get DiameterFilter scenario_c2 = Inr (PFloat NaN) \<and>
   call (init DiameterFilter OpEq (PFloat NaN)) scenario_c2 = Inr False \<and>
   call (init DiameterFilter OpGe (PFloat NaN)) scenario_c2 = Inr False \<and>
   call (init DiameterFilter OpLe (PFloat NaN)) scenario_c2 = Inr False"
  by (simp add: call_eq init_def py_eq_def py_ge_def py_le_def)

text \<open>
  C8, amended. For each of the five fields and every close approach whose value of that
  field is not the unknown value not-a-number, the equal, greater-or-equal and
  less-or-equal filters of the field, built with the close approach's own value as
  reference value, all return \<^verbatim>\<open>True\<close>.
\<close>

theorem reflexivity_at_known_value:
  assumes "get c a = Inr v" and "v \<noteq> PFloat NaN"
  shows "call (init c OpEq v) a = Inr True \<and>
         call (init c OpGe v) a = Inr True \<and>
         call (init c OpLe v) a = Inr True"
  using assms
  by (cases c)
     (auto simp: call_eq init_def py_eq_def py_ge_def py_le_def
                 float_le_refl float_eq_refl date_le_refl)

theorem reflexivity_at_known_value_witness:
  "get DiameterFilter scenario_c1 = Inr (PFloat (Fin (3 / 10))) \<and>
   PFloat (Fin (3 / 10)) \<noteq> PFloat NaN \<and>
   call (init DiameterFilter OpEq (PFloat (Fin (3 / 10)))) scenario_c1 = Inr True \<and>
   call (init DiameterFilter OpGe (PFloat (Fin (3 / 10)))) scenario_c1 = Inr True \<and>
   call (init DiameterFilter OpLe (PFloat (Fin (3 / 10)))) scenario_c1 = Inr True"
proof -
  have h1: "get DiameterFilter scenario_c1 = Inr (PFloat (Fin (3 / 10)))" by simp
  have h2: "PFloat (Fin (3 / 10)) \<noteq> PFloat NaN" by simp
  from reflexivity_at_known_value [OF h1 h2] h1 h2 show ?thesis by blast
qed

text \<open>
  C9. \<^verbatim>\<open>create_filters\<close> does not check its criteria against each other. Given a start
  date strictly after the end date (not on or before it) it returns its ten filters as
  always, with the start-date (\<open>\<ge>\<close>) filter second and the end-date (\<open>\<le>\<close>) filter third.
  On every close approach both of these return a boolean, the comparison of the
  approach's calendar date with the bound, and at least one of them returns \<^verbatim>\<open>False\<close>:
  no close approach satisfies both, so none is accepted by every filter of the list.
\<close>

theorem inconsistent_date_range:
  assumes "\<not> date_le s e"
  shows "length (create_filters d (PDate s) (PDate e) dmin dmax vmin vmax lo hi h) = 10 \<and>
         create_filters d (PDate s) (PDate e) dmin dmax vmin vmax lo hi h ! 1 =
           init DateFilter OpGe (PDate s) \<and>
         create_filters d (PDate s) (PDate e) dmin dmax vmin vmax lo hi h ! 2 =
           init DateFilter OpLe (PDate e) \<and>
         \<not> (call (init DateFilter OpGe (PDate s)) a = Inr True \<and>
            call (init DateFilter OpLe (PDate e)) a = Inr True) \<and>
         \<not> list_all (\<lambda>f. call f a = Inr True)
             (create_filters d (PDate s) (PDate e) dmin dmax vmin vmax lo hi h) \<and>
         create_filters d (PDate s) (PDate e) dmin dmax vmin vmax lo hi h ! 1 =
           \<lparr>cls = DateFilter, op = OpGe, ref_value = PDate s\<rparr> \<and>
         create_filters d (PDate s) (PDate e) dmin dmax vmin vmax lo hi h ! 2 =
           \<lparr>cls = DateFilter, op = OpLe, ref_value = PDate e\<rparr> \<and>
         call (create_filters d (PDate s) (PDate e) dmin dmax vmin vmax lo hi h ! 1) a =
           Inr (date_le s (date_of (time a))) \<and>
         call (create_filters d (PDate s) (PDate e) dmin dmax vmin vmax lo hi h ! 2) a =
           Inr (date_le (date_of (time a)) e) \<and>
         (call (create_filters d (PDate s) (PDate e) dmin dmax vmin vmax lo hi h ! 1) a =
            Inr False \<or>
          call (create_filters d (PDate s) (PDate e) dmin dmax vmin vmax lo hi h ! 2) a =
            Inr False)"
proof -
  let ?fs = "create_filters d (PDate s) (PDate e) dmin dmax vmin vmax lo hi h"
  have nth1: "?fs ! 1 = \<lparr>cls = DateFilter, op = OpGe, ref_value = PDate s\<rparr>"
    by (simp add: create_filters_list)
  have nth2: "?fs ! 2 = \<lparr>cls = DateFilter, op = OpLe, ref_value = PDate e\<rparr>"
    by (simp add: create_filters_list)
  have ge: "call (?fs ! 1) a = Inr (date_le s (date_of (time a)))"
    unfolding nth1 by (simp add: call_eq py_ge_def)
  have le: "call (?fs ! 2) a = Inr (date_le (date_of (time a)) e)"
    unfolding nth2 by (simp add: call_eq py_le_def)
  have one: "\<not> (date_le s (date_of (time a)) \<and> date_le (date_of (time a)) e)"
    using assms date_le_trans [of s "date_of (time a)" e] by blast
  have both: "\<not> (call (init DateFilter OpGe (PDate s)) a = Inr True \<and>
            call (init DateFilter OpLe (PDate e)) a = Inr True)"
    using one by (auto simp: call_eq init_def py_ge_def py_le_def)
  have none: "\<not> list_all (\<lambda>f. call f a = Inr True) ?fs"
    using both by (auto simp: create_filters_list init_def)
  have disj: "call (?fs ! 1) a = Inr False \<or> call (?fs ! 2) a = Inr False"
    unfolding ge le using one by blast
  have len: "length ?fs = 10"
    by (simp add: create_filters_list)
  have i1: "?fs ! 1 = init DateFilter OpGe (PDate s)"
    unfolding nth1 by (simp add: init_def)
  have i2: "?fs ! 2 = init DateFilter OpLe (PDate e)"
    unfolding nth2 by (simp add: init_def)
  from len i1 i2 both none nth1 nth2 ge le disj show ?thesis
    by blast
qed

theorem inconsistent_date_range_witness:
  "\<not> date_le \<lparr>year = 2020, month = 1, day = 2\<rparr> \<lparr>year = 2020, month = 1, day = 1\<rparr> \<and>
   call (create_filters PNone (PDate \<lparr>year = 2020, month = 1, day = 2\<rparr>)
          (PDate \<lparr>year = 2020, month = 1, day = 1\<rparr>) PNone PNone PNone PNone PNone PNone PNone ! 1)
     scenario_c1 = Inr False \<and>
   call (create_filters PNone (PDate \<lparr>year = 2020, month = 1, day = 2\<rparr>)
          (PDate \<lparr>year = 2020, month = 1, day = 1\<rparr>) PNone PNone PNone PNone PNone PNone PNone ! 2)
     scenario_c1 = Inr True \<and>
   \<not> list_all (\<lambda>f. call f scenario_c1 = Inr True)
       (create_filters PNone (PDate \<lparr>year = 2020, month = 1, day = 2\<rparr>)
          (PDate \<lparr>year = 2020, month = 1, day = 1\<rparr>) PNone PNone PNone PNone PNone PNone PNone)"
proof -
  let ?s = "\<lparr>year = 2020, month = 1, day = 2\<rparr> :: pydate"
  let ?e = "\<lparr>year = 2020, month = 1, day = 1\<rparr> :: pydate"
  let ?fs = "create_filters PNone (PDate ?s) (PDate ?e) PNone PNone PNone PNone PNone PNone PNone"
  have h: "\<not> date_le ?s ?e"
    by (simp add: date_le_def)
  note inst = inconsistent_date_range [OF h, of PNone PNone PNone PNone PNone PNone PNone PNone
      scenario_c1]
  from inst have ge: "call (?fs ! 1) scenario_c1 = Inr (date_le ?s (date_of (time scenario_c1)))"
    by blast
  from inst have le: "call (?fs ! 2) scenario_c1 = Inr (date_le (date_of (time scenario_c1)) ?e)"
    by blast
  from inst have none: "\<not> list_all (\<lambda>f. call f scenario_c1 = Inr True) ?fs"
    by blast
  have v1: "date_le ?s (date_of (time scenario_c1)) = False"
    by (simp add: date_le_def date_of_def)
  have v2: "date_le (date_of (time scenario_c1)) ?e = True"
    by (simp add: date_le_def date_of_def)
  from h ge le none show ?thesis
    unfolding v1 v2 by blast
qed

section \<open>The limiter\<close>

text \<open>
  C4. With a cap that is absent (\<^verbatim>\<open>None\<close>) or zero, \<^verbatim>\<open>limit\<close> gives the source sequence
  itself: the same items in the same order, the same end or exception, finite or not,
  and no cap.
\<close>

theorem limit_pass_through:
  "limit it None = Inr it \<and> limit it (Some 0) = Inr it"
  by (simp add: limit_def islice_def islice_next_None)

theorem limit_pass_through_witness:
  "limit (Yield (1::int) (Yield 2 (Raise (OtherError ''boom'')))) (Some 0) =
     Inr (Yield 1 (Yield 2 (Raise (OtherError ''boom''))))"
  using limit_pass_through [of "Yield (1::int) (Yield 2 (Raise (OtherError ''boom'')))"]
  by simp

text \<open>
  C5, as the claim states it, fails: a cap above \<^verbatim>\<open>sys.maxsize\<close> is rejected with
  \<^verbatim>\<open>ValueError\<close> when \<^verbatim>\<open>limit\<close> is called, and no item is yielded.
\<close>

theorem limit_cap_counterexample:
  "limit (Yield (1::int) StopIteration) (Some (2 ^ 63)) = Inl ValueError"
  by (simp add: limit_def islice_def sys_maxsize_def)

text \<open>
  C5, amended. For every cap \<open>k\<close> with \<open>0 < k \<le> sys.maxsize\<close>: on a finite sequence,
  \<^verbatim>\<open>limit\<close> yields exactly its first \<open>min k (length xs)\<close> items in their order; and on any
  source that starts with at least \<open>k\<close> items, it yields the first \<open>k\<close> and ends, whatever
  follows them in the source: the rest, which may raise or go on for ever, is not drawn.
\<close>

theorem limit_takes_prefix:
  assumes "0 < k" and "k \<le> sys_maxsize"
  shows "limit (yields xs StopIteration) (Some k) = Inr (yields (take (nat k) xs) StopIteration) \<and>
         length (take (nat k) xs) = min (nat k) (length xs) \<and>
         (nat k \<le> length xs \<longrightarrow>
            limit (yields xs rest) (Some k) = Inr (yields (take (nat k) xs) StopIteration))"
proof -
  have run: "islice_next 0 (Some (nat k)) (yields xs r) =
      (if nat k \<le> length xs then yields (take (nat k) xs) StopIteration
       else yields xs (islice_next (length xs) (Some (nat k)) r))" for r
    using islice_next_yields [of 0 "nat k" xs r] by simp
  have finite: "islice_next 0 (Some (nat k)) (yields xs StopIteration) =
      yields (take (nat k) xs) StopIteration"
    by (simp add: run)
  have lazy: "nat k \<le> length xs \<Longrightarrow>
      islice_next 0 (Some (nat k)) (yields xs rest) = yields (take (nat k) xs) StopIteration"
    by (simp add: run)
  from finite lazy show ?thesis
    by (simp add: limit_positive [OF assms])
qed

theorem limit_takes_prefix_witness:
  "(0::int) < 2 \<and> 2 \<le> sys_maxsize \<and>
   limit (Yield (1::int) (Yield 2 (Yield 3 StopIteration))) (Some 2) =
     Inr (Yield 1 (Yield 2 StopIteration)) \<and>
   limit (Yield (1::int) (Yield 2 (Raise (OtherError ''boom'')))) (Some 2) =
     Inr (Yield 1 (Yield 2 StopIteration))"
proof -
  have h1: "(0::int) < 2" by simp
  have h2: "2 \<le> sys_maxsize" by (simp add: sys_maxsize_def)
  from limit_takes_prefix [OF h1 h2, of "[1, 2, 3::int]" StopIteration]
    limit_takes_prefix [OF h1 h2, of "[1, 2::int]" "Raise (OtherError ''boom'')"] h1 h2
  show ?thesis by simp
qed

text \<open>
  C10. Called with a negative cap, \<^verbatim>\<open>limit\<close> raises \<^verbatim>\<open>ValueError\<close> at the call, before
  anything is drawn from the source: it returns no iterator at all, whatever the source.
\<close>

theorem limit_negative_cap:
  "n < 0 \<Longrightarrow> limit it (Some n) = Inl ValueError"
  by (simp add: limit_def islice_def)

theorem limit_negative_cap_witness:
  "(- 1::int) < 0 \<and>
   limit (Raise (OtherError ''boom'') :: int iterator) (Some (- 1)) = Inl ValueError"
  using limit_negative_cap [of "- 1" "Raise (OtherError ''boom'') :: int iterator"]
  by simp

end
